theory Spec2Isabelle
  imports Main
begin

section \<open>JavaScript strings and truthiness\<close>

text \<open>
  A JavaScript string is a sequence of code units; it is modelled as a \<open>string\<close> whose
  characters stand for the code units U+0000 to U+00FF, so that \<open>length\<close> is the
  source's \<open>.length\<close>. A value that may be \<open>undefined\<close> or \<open>null\<close> is an \<open>option\<close>.
\<close>

definition truthy :: "string option \<Rightarrow> bool" where
  \<comment> \<open>a string-or-missing value in a boolean position: missing and \<open>''\<close> are falsy\<close>
  "truthy v = (case v of None \<Rightarrow> False | Some s \<Rightarrow> s \<noteq> [])"

definition or_else :: "string option \<Rightarrow> string \<Rightarrow> string" where
  \<comment> \<open>\<open>a || b\<close> with \<open>b\<close> a string\<close>
  "or_else a b = (case a of None \<Rightarrow> b | Some s \<Rightarrow> if s \<noteq> [] then s else b)"

definition lower_char :: "char \<Rightarrow> char" where
  \<comment> \<open>\<open>toLowerCase\<close> on one code unit below U+0100: A-Z and the accented capitals
      U+00C0-U+00DE (the multiplication sign U+00D7 apart) move up by 32\<close>
  "lower_char c =
     (let n = (of_char c :: nat)
      in if (65 \<le> n \<and> n \<le> 90) \<or> (192 \<le> n \<and> n \<le> 214) \<or> (216 \<le> n \<and> n \<le> 222)
         then char_of (n + 32) else c)"

definition toLowerCase :: "string \<Rightarrow> string" where
  "toLowerCase s = map lower_char s"

definition js_whitespace :: "char \<Rightarrow> bool" where
  \<comment> \<open>the code units below U+0100 that \<open>trim\<close> strips: TAB, LF, VT, FF, CR, space, NBSP\<close>
  "js_whitespace c = ((of_char c :: nat) \<in> {9, 10, 11, 12, 13, 32, 160})"

definition trim :: "string \<Rightarrow> string" where
  "trim s = rev (dropWhile js_whitespace (rev (dropWhile js_whitespace s)))"

fun split_on :: "char \<Rightarrow> string \<Rightarrow> string list" where
  \<comment> \<open>\<open>s.split(c)\<close> for a one-character separator; never the empty array\<close>
  "split_on c [] = [[]]"
| "split_on c (x # xs) =
     (if x = c then [] # split_on c xs
      else (case split_on c xs of [] \<Rightarrow> [[x]] | p # ps \<Rightarrow> (x # p) # ps))"

fun join_with :: "char \<Rightarrow> string list \<Rightarrow> string" where
  \<comment> \<open>\<open>xs.join(c)\<close> for a one-character separator\<close>
  "join_with c [] = []"
| "join_with c [x] = x"
| "join_with c (x # y # ys) = x @ c # join_with c (y # ys)"

definition newline :: char where
  "newline = CHR 0x0A"

section \<open>The text_list editor of the dashboard\<close>

definition text_list_value :: "string list option \<Rightarrow> string" where
  \<comment> \<open>the textarea's value: \<open>(content.items || []).join('\n')\<close>\<close>
  "text_list_value items = join_with newline (case items of None \<Rightarrow> [] | Some xs \<Rightarrow> xs)"

definition text_list_onChange :: "string \<Rightarrow> string list" where
  \<comment> \<open>the items computed by onChange:
      \<open>value.split('\n').filter((line) => line.trim().length > 0)\<close>\<close>
  "text_list_onChange v = filter (\<lambda>line. length (trim line) > 0) (split_on newline v)"

section \<open>Profile rows and the backend's answers\<close>

text \<open>
  Modelled from the spec: the type \<open>Profile\<close> of \<open>@/lib/types\<close>, which the pages import
  and which is not among the sources. The fields are those of the spec's data model
  (identifier, owning-user reference, username, display name, bio text, avatar URL, banner
  URL, theme, update timestamp); the ones the code reads with a default
  (\<open>profileData.display_name || ''\<close>) may be null.
\<close>

record profile =
  prof_id :: string
  prof_user_id :: string
  prof_username :: string
  prof_display_name :: "string option"
  prof_bio :: "string option"
  prof_avatar_url :: "string option"
  prof_banner_url :: "string option"
  prof_theme :: "string option"
  prof_updated_at :: "string option"

text \<open>
  The hosted backend is not code of this repository: what it answers to a call is a
  parameter of every handler. A call resolves to an object \<open>{ data, error }\<close>, as the
  client library does; the RPC call may also throw, since the handlers guard it with
  \<open>try\<close>/\<open>catch\<close>. The rows that the uniqueness queries see are a list of profiles.
\<close>

record auth_user =
  uid :: string
  user_email :: "string option"

fun single :: "'a list \<Rightarrow> 'a option" where
  \<comment> \<open>\<open>.single()\<close>: the row when exactly one row matches, no data otherwise\<close>
  "single [x] = Some x"
| "single _ = None"

record rpc_params =
  p_user_id :: string
  p_username :: string
  p_display_name :: string

record insert_row =
  ins_user_id :: string
  ins_username :: string
  ins_display_name :: string

datatype rpc_outcome =
  RpcThrew
| RpcReturned (rpc_data: "string option") (rpc_error: "string option")

record insert_outcome =
  ins_data :: "profile option"
  ins_error :: "string option"

record request_body =
  body_username :: "string option"
  body_display_name :: "string option"
  body_user_id :: "string option"

text \<open>
  The JSON bodies that the route handler sends: \<open>{ error }\<close>, the object
  \<open>{ id, username, display_name }\<close> that POST builds after a successful RPC, and a profile
  row as the store returned it.
\<close>

datatype json_body =
  ErrorJson string
| CreatedJson string string "string option"
| RowJson "profile option"

record response =
  status :: nat
  body :: json_body

datatype fetch_outcome =
  FetchThrew
| FetchResponse response

record auth_response =
  auth_user :: "auth_user option"
  auth_session :: bool
  auth_error :: "string option"

section \<open>Sections, drafts and files\<close>

text \<open>
  Modelled from the spec: the type \<open>Section\<close> of \<open>@/lib/types\<close>, not among the sources
  either (identifier, owning-profile reference, title, type tag, content payload, integer
  position, visibility flag). The content payload is an object that may carry \<open>items\<close>,
  \<open>links\<close> and \<open>images\<close>; the code guards a missing payload (\<open>s.content?.items\<close>) and a
  missing flag (\<open>s.visible ?? true\<close>).
\<close>

record link =
  link_title :: string
  link_url :: string

record image =
  image_url :: string
  image_caption :: "string option"

record section_content =
  items :: "string list option"
  links :: "link list option"
  images :: "image list option"

record section_row =
  sec_id :: string
  sec_profile_id :: string
  sec_title :: string
  sec_type :: string
  sec_content :: "section_content option"
  sec_position :: int
  sec_visible :: "bool option"

record draft =
  title :: string
  content :: section_content
  visible :: bool

record section_update =
  upd_title :: string
  upd_content :: section_content
  upd_visible :: bool
  upd_updated_at :: string

record upload_file =
  file_name :: string
  file_size :: nat
  file_type :: string

datatype thrown =
  ErrorInstance string
| NonError string

datatype upload_outcome =
  UploadThrew thrown
| UploadReturned "thrown option"

datatype create_outcome =
  CreateThrew
| CreateResponse bool "profile option"

record profile_result =
  pr_data :: "profile option"
  pr_error :: "string option"

section \<open>Effects\<close>

text \<open>
  Every handler returns, next to its result, the list of the calls it issued and of the
  user-interface effects it performed, in the order of the source.
\<close>

datatype effect =
  GetUser
| SelectProfileByUsername string
| SelectProfileByUserId string
| Rpc rpc_params
| Insert insert_row
| SignUp string string string
| FetchPostProfile request_body
| RouterPush string
| RouterRefresh
| SelectSections string
| UpdateSection string section_update
| StorageUpload string upload_file
| GetPublicUrl string
| UpdateProfileAvatar string string string
| Alert string
| SetSavingSectionId "string option"
| SetUploadingAvatar bool

section \<open>The route handler POST /api/profile\<close>

record route_backend =
  session_user :: "auth_user option"
  profiles :: "profile list"
  rpc :: "rpc_params \<Rightarrow> rpc_outcome"
  insert_profile :: "insert_row \<Rightarrow> insert_outcome"

definition json :: "json_body \<Rightarrow> nat \<Rightarrow> response" where
  \<comment> \<open>\<open>NextResponse.json(body, { status })\<close>\<close>
  "json b st = \<lparr>status = st, body = b\<rparr>"

definition resolve_user_id :: "route_backend \<Rightarrow> request_body \<Rightarrow> string option" where
  \<comment> \<open>\<open>user?.id || user_id\<close>, with \<open>user\<close> the session's user\<close>
  "resolve_user_id be rq =
     (case session_user be of
        None \<Rightarrow> body_user_id rq
      | Some user \<Rightarrow> if uid user \<noteq> [] then Some (uid user) else body_user_id rq)"

definition rpc_call_params :: "string \<Rightarrow> string \<Rightarrow> string option \<Rightarrow> rpc_params" where
  \<comment> \<open>the argument object of \<open>supabase.rpc('create_profile_for_user', ...)\<close>\<close>
  "rpc_call_params currentUserId username display_name =
     \<lparr>p_user_id = currentUserId, p_username = toLowerCase username,
      p_display_name = or_else display_name username\<rparr>"

definition fallback_row :: "string \<Rightarrow> string \<Rightarrow> string option \<Rightarrow> insert_row" where
  \<comment> \<open>the object given to \<open>.insert(...)\<close> in the fallback\<close>
  "fallback_row currentUserId username display_name =
     \<lparr>ins_user_id = currentUserId, ins_username = toLowerCase username,
      ins_display_name = or_else display_name username\<rparr>"

definition POST :: "route_backend \<Rightarrow> request_body \<Rightarrow> response \<times> effect list" where
  "POST be rq =
    (case body_username rq of
       None \<Rightarrow> (json (ErrorJson ''Username is required'') 400, [])
     | Some username \<Rightarrow>
       if username = [] then (json (ErrorJson ''Username is required'') 400, [])
       else
        (case resolve_user_id be rq of
           None \<Rightarrow> (json (ErrorJson ''Unauthorized'') 401, [GetUser])
         | Some currentUserId \<Rightarrow>
           if currentUserId = [] then (json (ErrorJson ''Unauthorized'') 401, [GetUser])
           else
            let existingProfile =
                  single (filter (\<lambda>p. prof_username p = toLowerCase username) (profiles be));
                q1 = [GetUser, SelectProfileByUsername (toLowerCase username)]
            in
            if existingProfile \<noteq> None
            then (json (ErrorJson ''Username is already taken'') 400, q1)
            else
             let existingUserProfile =
                   single (filter (\<lambda>p. prof_user_id p = currentUserId) (profiles be));
                 q2 = q1 @ [SelectProfileByUserId currentUserId]
             in
             if existingUserProfile \<noteq> None
             then (json (ErrorJson ''Profile already exists'') 400, q2)
             else
              let params = rpc_call_params currentUserId username (body_display_name rq);
                  q3 = q2 @ [Rpc params];
                  created =
                    (case rpc be params of
                       RpcThrew \<Rightarrow> None
                     | RpcReturned profileData rpcError \<Rightarrow>
                         if rpcError = None \<and> truthy profileData then profileData else None)
              in
              (case created of
                 Some new_id \<Rightarrow>
                   (json (CreatedJson new_id username (body_display_name rq)) 201, q3)
               | None \<Rightarrow>
                 let row = fallback_row currentUserId username (body_display_name rq);
                     res = insert_profile be row;
                     q4 = q3 @ [Insert row]
                 in
                 (case ins_error res of
                    Some message \<Rightarrow> (json (ErrorJson message) 500, q4)
                  | None \<Rightarrow> (json (RowJson (ins_data res)) 201, q4)))))"

section \<open>The signup page\<close>

record signup_backend =
  su_profiles :: "profile list"
  su_signUp :: "string \<Rightarrow> string \<Rightarrow> string \<Rightarrow> auth_response"
  su_rpc :: "rpc_params \<Rightarrow> rpc_outcome"
  su_fetch :: "request_body \<Rightarrow> fetch_outcome"

record signup_state =
  su_error :: string
  su_loading :: bool

definition username_char :: "char \<Rightarrow> bool" where
  \<comment> \<open>the character class \<open>[a-zA-Z0-9_]\<close>\<close>
  "username_char c =
     (let n = (of_char c :: nat)
      in (97 \<le> n \<and> n \<le> 122) \<or> (65 \<le> n \<and> n \<le> 90) \<or> (48 \<le> n \<and> n \<le> 57) \<or> n = 95)"

definition username_regex :: "string \<Rightarrow> bool" where
  \<comment> \<open>\<open>/^[a-zA-Z0-9_]+$/.test(username)\<close>\<close>
  "username_regex s = (s \<noteq> [] \<and> list_all username_char s)"

definition ok :: "response \<Rightarrow> bool" where
  \<comment> \<open>\<open>response.ok\<close>\<close>
  "ok r = (200 \<le> status r \<and> status r \<le> 299)"

definition signup_finish :: "bool \<Rightarrow> effect list \<Rightarrow> signup_state \<times> effect list" where
  \<comment> \<open>the end of handleSignup, from the email-confirmation check on\<close>
  "signup_finish session q =
     (if \<not> session
      then (\<lparr>su_error = ''Account created! Please check your email to confirm your account, then log in.'',
             su_loading = False\<rparr>, q)
      else (\<lparr>su_error = [], su_loading = True\<rparr>, q @ [RouterPush ''/dashboard'', RouterRefresh]))"

definition handleSignup ::
  "signup_backend \<Rightarrow> string \<Rightarrow> string \<Rightarrow> string \<Rightarrow> string \<Rightarrow> signup_state \<times> effect list" where
  "handleSignup be origin email password username =
    (if length username < 3 \<or> length username > 20
     then (\<lparr>su_error = ''Username must be 3-20 characters'', su_loading = False\<rparr>, [])
     else if \<not> username_regex username
     then (\<lparr>su_error = ''Username can only contain letters, numbers, and underscores'',
            su_loading = False\<rparr>, [])
     else
      let existingProfile =
            single (filter (\<lambda>p. prof_username p = toLowerCase username) (su_profiles be));
          q1 = [SelectProfileByUsername (toLowerCase username)]
      in
      if existingProfile \<noteq> None
      then (\<lparr>su_error = ''Username is already taken'', su_loading = False\<rparr>, q1)
      else
       let redirect = origin @ ''/auth/callback'';
           auth = su_signUp be email password redirect;
           q2 = q1 @ [SignUp email password redirect]
       in
       (case auth_error auth of
          Some message \<Rightarrow> (\<lparr>su_error = message, su_loading = False\<rparr>, q2)
        | None \<Rightarrow>
          (case auth_user auth of
             None \<Rightarrow> (\<lparr>su_error = ''Failed to create user account'', su_loading = False\<rparr>, q2)
           | Some user \<Rightarrow>
             let rpcParams = \<lparr>p_user_id = uid user, p_username = toLowerCase username,
                                p_display_name = username\<rparr>;
                 q3 = q2 @ [Rpc rpcParams];
                 profileCreated =
                   (case su_rpc be rpcParams of
                      RpcThrew \<Rightarrow> False
                    | RpcReturned profileData rpcError \<Rightarrow>
                        if rpcError \<noteq> None then False else truthy profileData)
             in
             if profileCreated then signup_finish (auth_session auth) q3
             else
              let rq = \<lparr>body_username = Some (toLowerCase username),
                         body_display_name = Some username, body_user_id = Some (uid user)\<rparr>;
                  q4 = q3 @ [FetchPostProfile rq];
                  failed = (\<lparr>su_error = ''Failed to create profile. Please try again or contact support.'',
                             su_loading = False\<rparr>, q4)
              in
              (case su_fetch be rq of
                 FetchThrew \<Rightarrow> failed
               | FetchResponse resp \<Rightarrow>
                 if ok resp then signup_finish (auth_session auth) q4
                 else
                  (case body resp of
                     ErrorJson message \<Rightarrow>
                       (\<lparr>su_error = ''Profile creation failed: '' @ or_else (Some message) ''Unknown error'',
                         su_loading = False\<rparr>, q4)
                   | CreatedJson _ _ _ \<Rightarrow>
                       (\<lparr>su_error = ''Profile creation failed: Unknown error'', su_loading = False\<rparr>, q4)
                   | RowJson None \<Rightarrow> failed
                   | RowJson (Some _) \<Rightarrow>
                       (\<lparr>su_error = ''Profile creation failed: Unknown error'', su_loading = False\<rparr>,
                        q4))))))"

section \<open>The backend client accessor\<close>

text \<open>
  The module keeps one variable, \<open>supabaseClient\<close>. The library constructor
  \<open>createClient\<close> makes a new object at every call; the model numbers the objects in
  the order of their construction and keeps the list of those constructed so far, so
  that two handles are the same object exactly when they are equal.
\<close>

record supabase_client =
  client_handle :: nat
  client_url :: string
  client_key :: string

record process_env =
  NEXT_PUBLIC_SUPABASE_URL :: "string option"
  NEXT_PUBLIC_SUPABASE_ANON_KEY :: "string option"

record process_state =
  supabaseClient :: "supabase_client option"
  constructed :: "supabase_client list"

definition process_start :: process_state where
  \<comment> \<open>\<open>let supabaseClient = null\<close>, nothing constructed yet\<close>
  "process_start = \<lparr>supabaseClient = None, constructed = []\<rparr>"

definition createClient ::
  "string \<Rightarrow> string \<Rightarrow> process_state \<Rightarrow> supabase_client \<times> process_state" where
  "createClient supabaseUrl supabaseKey st =
     (let c = \<lparr>client_handle = length (constructed st), client_url = supabaseUrl,
                client_key = supabaseKey\<rparr>
      in (c, st\<lparr>constructed := constructed st @ [c]\<rparr>))"

definition getSupabaseClient ::
  "process_env \<Rightarrow> process_state \<Rightarrow> (thrown + supabase_client) \<times> process_state" where
  "getSupabaseClient env st =
     (case supabaseClient st of
        Some c \<Rightarrow> (Inr c, st)
      | None \<Rightarrow>
        let supabaseUrl = NEXT_PUBLIC_SUPABASE_URL env;
            supabaseKey = NEXT_PUBLIC_SUPABASE_ANON_KEY env
        in
        if \<not> truthy supabaseUrl \<or> \<not> truthy supabaseKey
        then (Inl (ErrorInstance ''Missing Supabase environment variables''), st)
        else
         (case createClient (the supabaseUrl) (the supabaseKey) st of
            (c, st') \<Rightarrow> (Inr c, st'\<lparr>supabaseClient := Some c\<rparr>)))"

fun accesses ::
  "process_env list \<Rightarrow> process_state \<Rightarrow> (thrown + supabase_client) list \<times> process_state" where
  \<comment> \<open>successive calls of getSupabaseClient in one process, each under the environment
      of its moment\<close>
  "accesses [] st = ([], st)"
| "accesses (env # envs) st =
     (case getSupabaseClient env st of
        (r, st1) \<Rightarrow> (case accesses envs st1 of (rs, st2) \<Rightarrow> (r # rs, st2)))"

section \<open>The public profile card\<close>







section \<open>The public page\<close>

text \<open>
  Modelled from the spec: the three components TextListSection, LinksSection and
  GallerySection that ProfileCard imports from \<open>./sections\<close>, which are not among the
  sources. The spec gives what a section of each type tag holds: for \<open>text_list\<close> an
  ordered sequence of strings, for \<open>links\<close> an ordered sequence of {title, url}, for
  \<open>gallery\<close> an ordered sequence of {url, caption}; and it has the renderer dispatch
  "purely by the active section's type tag". Each component shows the sequence of its type,
  an empty one when the payload lacks it.
\<close>

datatype rendered =
  RenderedItems "string list"
| RenderedLinks "link list"
| RenderedImages "image list"





section \<open>The dashboard page\<close>

text \<open>
  \<open>src/app/dashboard/page.tsx\<close> holds two versions of the page component. The model follows
  the second one (from line 470 on), which has the section editors, \<open>sectionEdits\<close> and
  \<open>saveSection\<close>; \<open>uploadAvatar\<close> is the same in both. The component's state variables are
  the fields of one record, and a handler returns the state it leaves behind.
\<close>

record dashboard =
  profile :: "profile option"
  sections :: "section_row list"
  loading :: bool
  editingProfile :: bool
  displayName :: string
  bio :: string
  avatarUrl :: string
  bannerUrl :: string
  showAddMenu :: bool
  uploadingAvatar :: bool
  uploadingBanner :: bool
  sectionEdits :: "string \<rightharpoonup> draft"
  savingSectionId :: "string option"

record dashboard_backend =
  db_user :: "auth_user option"
  db_profile :: "string \<Rightarrow> profile_result"
  db_create_profile :: "request_body \<Rightarrow> create_outcome"
  db_sections :: "string \<Rightarrow> section_row list option"
  db_update_section :: "string \<Rightarrow> section_update \<Rightarrow> string option"
  db_upload :: "string \<Rightarrow> upload_file \<Rightarrow> upload_outcome"
  db_getPublicUrl :: "string \<Rightarrow> string"

definition normalizedContent :: "section_row \<Rightarrow> section_content" where
  "normalizedContent s =
     (if sec_type s = ''text_list''
      then \<lparr>items = Some (case sec_content s of None \<Rightarrow> []
                           | Some c \<Rightarrow> (case items c of None \<Rightarrow> [] | Some xs \<Rightarrow> xs)),
            links = None, images = None\<rparr>
      else if sec_type s = ''links''
      then \<lparr>items = None,
            links = Some (case sec_content s of None \<Rightarrow> []
                           | Some c \<Rightarrow> (case links c of None \<Rightarrow> [] | Some xs \<Rightarrow> xs)),
            images = None\<rparr>
      else \<lparr>items = None, links = None,
            images = Some (case sec_content s of None \<Rightarrow> []
                            | Some c \<Rightarrow> (case images c of None \<Rightarrow> [] | Some xs \<Rightarrow> xs))\<rparr>)"

definition section_edits_of :: "section_row list \<Rightarrow> (string \<rightharpoonup> draft)" where
  \<comment> \<open>the object \<open>edits\<close> that loadProfile fills in its \<open>forEach\<close>\<close>
  "section_edits_of sectionsData =
     foldl (\<lambda>edits s. edits(sec_id s \<mapsto>
              \<lparr>title = sec_title s, content = normalizedContent s,
               visible = (case sec_visible s of None \<Rightarrow> True | Some v \<Rightarrow> v)\<rparr>))
       Map.empty sectionsData"

definition fallback_request :: "auth_user \<Rightarrow> request_body" where
  \<comment> \<open>the body loadProfile posts to /api/profile when the profile row is missing\<close>
  "fallback_request user =
     \<lparr>body_username = Some (''user_'' @ take 8 (uid user)),
      body_display_name =
        Some (or_else (case user_email user of
                         None \<Rightarrow> None
                       | Some e \<Rightarrow> (case split_on CHR ''@'' e of [] \<Rightarrow> None | x # _ \<Rightarrow> Some x))
                ''New User''),
      body_user_id = None\<rparr>"

definition loadProfile :: "dashboard_backend \<Rightarrow> dashboard \<Rightarrow> dashboard \<times> effect list" where
  "loadProfile be st =
    (case db_user be of
       None \<Rightarrow> (st, [GetUser, RouterPush ''/login''])
     | Some user \<Rightarrow>
       let res = db_profile be (uid user);
           q1 = [GetUser, SelectProfileByUserId (uid user)];
           afterCreate =
             (case pr_error res of
                None \<Rightarrow> (st, q1)
              | Some code \<Rightarrow>
                if code = ''PGRST116''
                then
                 (case db_create_profile be (fallback_request user) of
                    CreateThrew \<Rightarrow> (st, q1 @ [FetchPostProfile (fallback_request user)])
                  | CreateResponse response_ok result \<Rightarrow>
                    (case result of
                       None \<Rightarrow> (st, q1 @ [FetchPostProfile (fallback_request user)])
                     | Some r \<Rightarrow>
                       if response_ok
                       then (st\<lparr>profile := Some r,
                                displayName := or_else (prof_display_name r) [],
                                bio := or_else (prof_bio r) []\<rparr>,
                             q1 @ [FetchPostProfile (fallback_request user)])
                       else (st, q1 @ [FetchPostProfile (fallback_request user)])))
                else (st, q1))
       in
       (case pr_data res of
          None \<Rightarrow> ((fst afterCreate)\<lparr>loading := False\<rparr>, snd afterCreate)
        | Some profileData \<Rightarrow>
          let st2 = (fst afterCreate)\<lparr>profile := Some profileData,
                      displayName := or_else (prof_display_name profileData) [],
                      bio := or_else (prof_bio profileData) [],
                      avatarUrl := or_else (prof_avatar_url profileData) [],
                      bannerUrl := or_else (prof_banner_url profileData) []\<rparr>;
              q3 = snd afterCreate @ [SelectSections (prof_id profileData)]
          in
          (case db_sections be (prof_id profileData) of
             None \<Rightarrow> (st2\<lparr>loading := False\<rparr>, q3)
           | Some sectionsData \<Rightarrow>
               (st2\<lparr>sections := sectionsData, sectionEdits := section_edits_of sectionsData,
                    loading := False\<rparr>, q3))))"

definition saveSection ::
  "dashboard_backend \<Rightarrow> string \<Rightarrow> string \<Rightarrow> dashboard \<Rightarrow> dashboard \<times> effect list" where
  \<comment> \<open>\<open>now\<close> is \<open>new Date().toISOString()\<close> at the moment of the call\<close>
  "saveSection be now section_id st =
    (case sectionEdits st section_id of
       None \<Rightarrow> (st, [])
     | Some edits \<Rightarrow>
       let upd = \<lparr>upd_title = title edits, upd_content = content edits,
                  upd_visible = visible edits, upd_updated_at = now\<rparr>;
           st1 = st\<lparr>savingSectionId := Some section_id\<rparr>;
           q1 = [SetSavingSectionId (Some section_id), UpdateSection section_id upd];
           reloaded =
             (case db_update_section be section_id upd of
                None \<Rightarrow> (fst (loadProfile be st1), q1 @ snd (loadProfile be st1))
              | Some error \<Rightarrow> (st1, q1))
       in ((fst reloaded)\<lparr>savingSectionId := None\<rparr>, snd reloaded @ [SetSavingSectionId None]))"

definition avatar_path :: "profile \<Rightarrow> upload_file \<Rightarrow> string" where
  \<comment> \<open>\<open>filePath\<close> of uploadAvatar\<close>
  "avatar_path p file =
     (let fileExt = (case rev (split_on CHR ''.'' (file_name file)) of
                       [] \<Rightarrow> ''undefined'' | e # _ \<Rightarrow> e);
          fileName = prof_id p @ ''-avatar.'' @ fileExt
      in ''avatars/'' @ fileName)"

definition errorMsg :: "thrown \<Rightarrow> string" where
  \<comment> \<open>\<open>error instanceof Error ? error.message : String(error)\<close>\<close>
  "errorMsg e = (case e of ErrorInstance message \<Rightarrow> message | NonError rendered \<Rightarrow> rendered)"

definition upload_failure :: "upload_outcome \<Rightarrow> thrown option" where
  \<comment> \<open>what reaches the \<open>catch\<close> of uploadAvatar from the upload: the exception of
      the call, or the \<open>uploadError\<close> that the handler throws itself\<close>
  "upload_failure r = (case r of UploadThrew e \<Rightarrow> Some e | UploadReturned e \<Rightarrow> e)"

definition uploadAvatar ::
  "dashboard_backend \<Rightarrow> string \<Rightarrow> upload_file \<Rightarrow> dashboard \<Rightarrow> dashboard \<times> effect list" where
  "uploadAvatar be now file st =
    (case profile st of
       None \<Rightarrow> (st, [])
     | Some p \<Rightarrow>
       let filePath = avatar_path p file;
           st1 = st\<lparr>uploadingAvatar := True\<rparr>;
           q1 = [SetUploadingAvatar True, StorageUpload filePath file]
       in
       (case upload_failure (db_upload be filePath file) of
          Some error \<Rightarrow>
            (st1\<lparr>uploadingAvatar := False\<rparr>,
             q1 @ [Alert (''Failed to upload avatar: '' @ errorMsg error),
                   SetUploadingAvatar False])
        | None \<Rightarrow>
          let newUrl = db_getPublicUrl be filePath;
              st2 = st1\<lparr>avatarUrl := newUrl\<rparr>;
              q2 = q1 @ [GetPublicUrl filePath, UpdateProfileAvatar (prof_id p) newUrl now]
          in ((fst (loadProfile be st2))\<lparr>uploadingAvatar := False\<rparr>,
              q2 @ snd (loadProfile be st2) @ [SetUploadingAvatar False])))"

section \<open>Vocabulary for the properties of POST\<close>

definition is_insert :: "effect \<Rightarrow> bool" where
  "is_insert e = (case e of Insert _ \<Rightarrow> True | _ \<Rightarrow> False)"


definition rpc_failed :: "rpc_outcome \<Rightarrow> bool" where
  \<comment> \<open>the call threw, or the test \<open>!rpcError && profileData\<close> of the handler is false\<close>
  "rpc_failed r =
     (case r of
        RpcThrew \<Rightarrow> True
      | RpcReturned profileData rpcError \<Rightarrow> rpcError \<noteq> None \<or> \<not> truthy profileData)"

definition username_taken :: "route_backend \<Rightarrow> string \<Rightarrow> bool" where
  \<comment> \<open>the first uniqueness query of the handler finds a row\<close>
  "username_taken be username =
     (single (filter (\<lambda>p. prof_username p = toLowerCase username) (profiles be)) \<noteq> None)"

definition has_profile :: "route_backend \<Rightarrow> string \<Rightarrow> bool" where
  \<comment> \<open>the second query of the handler finds a row\<close>
  "has_profile be currentUserId =
     (single (filter (\<lambda>p. prof_user_id p = currentUserId) (profiles be)) \<noteq> None)"

definition queries :: "string \<Rightarrow> string \<Rightarrow> effect list" where
  "queries username currentUserId =
     [GetUser, SelectProfileByUsername (toLowerCase username), SelectProfileByUserId currentUserId]"

section \<open>Concrete requests and backends\<close>

definition request_Alice :: request_body where
  \<comment> \<open>the body \<open>{"username": "Alice", "user_id": "u1"}\<close>\<close>
  "request_Alice = \<lparr>body_username = Some ''Alice'', body_display_name = None,
                      body_user_id = Some ''u1''\<rparr>"

definition backend_rpc_down :: route_backend where
  \<comment> \<open>no session, no rows; the RPC throws and the insert is refused\<close>
  "backend_rpc_down =
     \<lparr>session_user = None, profiles = [], rpc = (\<lambda>_. RpcThrew),
      insert_profile = (\<lambda>_. \<lparr>ins_data = None, ins_error = Some ''permission denied''\<rparr>)\<rparr>"

definition backend_rpc_up :: route_backend where
  \<comment> \<open>no session, no rows; the RPC creates the row and returns its id\<close>
  "backend_rpc_up =
     \<lparr>session_user = None, profiles = [], rpc = (\<lambda>_. RpcReturned (Some ''p1'') None),
      insert_profile = (\<lambda>_. \<lparr>ins_data = None, ins_error = Some ''permission denied''\<rparr>)\<rparr>"

definition profile_named :: "string \<Rightarrow> profile" where
  "profile_named name =
     \<lparr>prof_id = ''p0'', prof_user_id = ''u0'', prof_username = name,
      prof_display_name = Some name, prof_bio = None, prof_avatar_url = None,
      prof_banner_url = None, prof_theme = None, prof_updated_at = None\<rparr>"

definition signup_backend_empty :: signup_backend where
  \<comment> \<open>no rows; sign-up, RPC and API route all answer with a failure\<close>
  "signup_backend_empty =
     \<lparr>su_profiles = [],
      su_signUp = (\<lambda>_ _ _. \<lparr>auth_user = None, auth_session = False,
                            auth_error = Some ''signups disabled''\<rparr>),
      su_rpc = (\<lambda>_. RpcThrew),
      su_fetch = (\<lambda>_. FetchThrew)\<rparr>"



definition request_short :: request_body where
  \<comment> \<open>the body \<open>{"username": "x!", "user_id": "u1"}\<close>\<close>
  "request_short = \<lparr>body_username = Some ''x!'', body_display_name = None,
                      body_user_id = Some ''u1''\<rparr>"



section \<open>Vocabulary for the other properties\<close>

definition client_invariant :: "process_state \<Rightarrow> bool" where
  \<comment> \<open>nothing is constructed and the variable is empty, or the variable holds the one
      client constructed\<close>
  "client_invariant st =
     (case supabaseClient st of
        None \<Rightarrow> constructed st = []
      | Some c \<Rightarrow> constructed st = [c])"


definition is_update_section :: "effect \<Rightarrow> bool" where
  "is_update_section e = (case e of UpdateSection _ _ \<Rightarrow> True | _ \<Rightarrow> False)"

definition is_set_saving :: "effect \<Rightarrow> bool" where
  "is_set_saving e = (case e of SetSavingSectionId _ \<Rightarrow> True | _ \<Rightarrow> False)"

definition is_profile_write :: "effect \<Rightarrow> bool" where
  "is_profile_write e = (case e of UpdateProfileAvatar _ _ _ \<Rightarrow> True | _ \<Rightarrow> False)"

definition section_write :: "draft \<Rightarrow> string \<Rightarrow> section_update" where
  \<comment> \<open>the four fields of a draft and a timestamp\<close>
  "section_write d now =
     \<lparr>upd_title = title d, upd_content = content d, upd_visible = visible d,
      upd_updated_at = now\<rparr>"

definition env_ok :: process_env where
  "env_ok = \<lparr>NEXT_PUBLIC_SUPABASE_URL = Some ''https://db.example'',
             NEXT_PUBLIC_SUPABASE_ANON_KEY = Some ''anon''\<rparr>"

definition env_no_key :: process_env where
  "env_no_key = \<lparr>NEXT_PUBLIC_SUPABASE_URL = Some ''https://db.example'',
                 NEXT_PUBLIC_SUPABASE_ANON_KEY = None\<rparr>"

definition hidden_section :: section_row where
  \<comment> \<open>a text_list section saved with \<open>visible = false\<close>\<close>
  "hidden_section =
     \<lparr>sec_id = ''s1'', sec_profile_id = ''p0'', sec_title = ''Notes'', sec_type = ''text_list'',
      sec_content = Some \<lparr>items = Some [''First item''], links = None, images = None\<rparr>,
      sec_position = 0, sec_visible = Some False\<rparr>"

definition dashboard_loaded :: dashboard where
  \<comment> \<open>a dashboard after loading the profile "bob_1" and its one section\<close>
  "dashboard_loaded =
     \<lparr>profile = Some (profile_named ''bob_1''), sections = [hidden_section],
      loading = False, editingProfile = False, displayName = ''bob_1'', bio = [],
      avatarUrl = ''https://cdn.example/old.png'', bannerUrl = [], showAddMenu = False,
      uploadingAvatar = False, uploadingBanner = False,
      sectionEdits = section_edits_of [hidden_section], savingSectionId = None\<rparr>"

definition backend_failing :: dashboard_backend where
  \<comment> \<open>a backend that refuses the section update and the upload\<close>
  "backend_failing =
     \<lparr>db_user = Some \<lparr>uid = ''u0'', user_email = None\<rparr>,
      db_profile = (\<lambda>_. \<lparr>pr_data = Some (profile_named ''bob_1''), pr_error = None\<rparr>),
      db_create_profile = (\<lambda>_. CreateThrew),
      db_sections = (\<lambda>_. Some [hidden_section]),
      db_update_section = (\<lambda>_ _. Some ''row-level security''),
      db_upload = (\<lambda>_ _. UploadReturned (Some (ErrorInstance ''Bucket not found''))),
      db_getPublicUrl = (\<lambda>path. ''https://cdn.example/'' @ path)\<rparr>"

definition avatar_file :: upload_file where
  "avatar_file = \<lparr>file_name = ''me.png'', file_size = 1024, file_type = ''image/png''\<rparr>"

definition saved_section :: section_row where
  \<comment> \<open>\<open>hidden_section\<close> as the store returns it once the title "Ideas" is saved\<close>
  "saved_section = hidden_section\<lparr>sec_title := ''Ideas''\<rparr>"

definition dashboard_edited :: dashboard where
  \<comment> \<open>\<open>dashboard_loaded\<close> after the title of the draft of "s1" was edited to "Ideas"\<close>
  "dashboard_edited =
     dashboard_loaded\<lparr>sectionEdits := (sectionEdits dashboard_loaded)(''s1'' \<mapsto>
        \<lparr>title = ''Ideas'',
         content = \<lparr>items = Some [''First item''], links = None, images = None\<rparr>,
         visible = False\<rparr>)\<rparr>"

definition backend_saving :: dashboard_backend where
  \<comment> \<open>a backend that accepts the section update and then returns the saved rows\<close>
  "backend_saving =
     \<lparr>db_user = Some \<lparr>uid = ''u0'', user_email = None\<rparr>,
      db_profile = (\<lambda>_. \<lparr>pr_data = Some (profile_named ''bob_1''), pr_error = None\<rparr>),
      db_create_profile = (\<lambda>_. CreateThrew),
      db_sections = (\<lambda>_. Some [saved_section]),
      db_update_section = (\<lambda>_ _. None),
      db_upload = (\<lambda>_ _. UploadReturned None),
      db_getPublicUrl = (\<lambda>path. ''https://cdn.example/'' @ path)\<rparr>"

section \<open>Properties of the text_list editor\<close>

lemma split_on_not_Nil: "split_on c s \<noteq> []"
  by (induction s) (auto split: list.splits)

lemma split_on_no_sep: "c \<notin> set s \<Longrightarrow> split_on c s = [s]"
  by (induction s) auto

lemma split_on_append_sep:
  "c \<notin> set x \<Longrightarrow> split_on c (x @ c # rest) = x # split_on c rest"
  by (induction x) auto

lemma split_on_join_with:
  "xs \<noteq> [] \<Longrightarrow> \<forall>x\<in>set xs. c \<notin> set x \<Longrightarrow> split_on c (join_with c xs) = xs"
proof (induction c xs rule: join_with.induct)
  case (1 c)
  then show ?case by simp
next
  case (2 c x)
  then show ?case by (simp add: split_on_no_sep)
next
  case (3 c x y ys)
  then show ?case by (simp add: split_on_append_sep)
qed

lemma text_list_onChange_value_Nil: "text_list_onChange (text_list_value (Some [])) = []"
  by (simp add: text_list_onChange_def text_list_value_def trim_def)

text \<open>
  C4, as amended. Joining the items with newline and re-splitting on newline, dropping the
  lines whose trimmed length is zero, gives back the same ordered list, for every list
  whose entries are neither blank (whitespace-only) nor contain a newline.
\<close>

theorem text_list_round_trip:
  assumes "\<forall>x\<in>set xs. 0 < length (trim x)"
    and "\<forall>x\<in>set xs. newline \<notin> set x"
  shows "text_list_onChange (text_list_value (Some xs)) = xs"
proof (cases "xs = []")
  case True
  then show ?thesis by (simp add: text_list_onChange_value_Nil)
next
  case False
  from False assms(2) have "split_on newline (join_with newline xs) = xs"
    by (rule split_on_join_with)
  with assms(1) show ?thesis
    by (simp add: text_list_onChange_def text_list_value_def)
qed

theorem text_list_round_trip_witness:
  "text_list_onChange (text_list_value (Some [''First item'', ''Second item'']))
     = [''First item'', ''Second item'']"
  using text_list_round_trip [of "[''First item'', ''Second item'']"]
  by (simp add: trim_def js_whitespace_def newline_def)

text \<open>
  The round trip as the spec states it, for every list without blank entries, fails: an
  entry that is not blank may hold a newline, and the list of the single entry "a",
  newline, "b" comes back as the two entries "a" and "b".
\<close>

theorem text_list_round_trip_counterexample:
  "0 < length (trim [CHR ''a'', newline, CHR ''b''])
   \<and> text_list_onChange (text_list_value (Some [[CHR ''a'', newline, CHR ''b'']]))
       \<noteq> [[CHR ''a'', newline, CHR ''b'']]"
  by (simp add: text_list_onChange_def text_list_value_def trim_def js_whitespace_def
      newline_def)

section \<open>The paths through POST\<close>

lemma POST_required:
  "body_username rq = None \<or> body_username rq = Some [] \<Longrightarrow>
   POST be rq = (json (ErrorJson ''Username is required'') 400, [])"
  by (auto simp: POST_def)

lemma POST_unauthorized:
  "body_username rq = Some username \<Longrightarrow> username \<noteq> [] \<Longrightarrow>
   \<not> truthy (resolve_user_id be rq) \<Longrightarrow>
   POST be rq = (json (ErrorJson ''Unauthorized'') 401, [GetUser])"
  by (simp add: POST_def truthy_def split: option.splits)

lemma POST_taken:
  "body_username rq = Some username \<Longrightarrow> username \<noteq> [] \<Longrightarrow>
   resolve_user_id be rq = Some currentUserId \<Longrightarrow> currentUserId \<noteq> [] \<Longrightarrow>
   username_taken be username \<Longrightarrow>
   POST be rq = (json (ErrorJson ''Username is already taken'') 400,
                 [GetUser, SelectProfileByUsername (toLowerCase username)])"
  by (simp add: POST_def username_taken_def)

lemma POST_exists:
  "body_username rq = Some username \<Longrightarrow> username \<noteq> [] \<Longrightarrow>
   resolve_user_id be rq = Some currentUserId \<Longrightarrow> currentUserId \<noteq> [] \<Longrightarrow>
   \<not> username_taken be username \<Longrightarrow> has_profile be currentUserId \<Longrightarrow>
   POST be rq = (json (ErrorJson ''Profile already exists'') 400, queries username currentUserId)"
  by (simp add: POST_def username_taken_def has_profile_def queries_def)

lemma POST_rpc_created:
  "body_username rq = Some username \<Longrightarrow> username \<noteq> [] \<Longrightarrow>
   resolve_user_id be rq = Some currentUserId \<Longrightarrow> currentUserId \<noteq> [] \<Longrightarrow>
   \<not> username_taken be username \<Longrightarrow> \<not> has_profile be currentUserId \<Longrightarrow>
   rpc be (rpc_call_params currentUserId username (body_display_name rq))
     = RpcReturned (Some new_id) None \<Longrightarrow>
   new_id \<noteq> [] \<Longrightarrow>
   POST be rq = (json (CreatedJson new_id username (body_display_name rq)) 201,
                 queries username currentUserId
                   @ [Rpc (rpc_call_params currentUserId username (body_display_name rq))])"
  by (simp add: POST_def username_taken_def has_profile_def queries_def truthy_def)

lemma POST_fallback:
  "body_username rq = Some username \<Longrightarrow> username \<noteq> [] \<Longrightarrow>
   resolve_user_id be rq = Some currentUserId \<Longrightarrow> currentUserId \<noteq> [] \<Longrightarrow>
   \<not> username_taken be username \<Longrightarrow> \<not> has_profile be currentUserId \<Longrightarrow>
   rpc_failed (rpc be (rpc_call_params currentUserId username (body_display_name rq))) \<Longrightarrow>
   POST be rq =
     ((case ins_error (insert_profile be
                (fallback_row currentUserId username (body_display_name rq))) of
         Some message \<Rightarrow> json (ErrorJson message) 500
       | None \<Rightarrow> json (RowJson (ins_data (insert_profile be
                      (fallback_row currentUserId username (body_display_name rq))))) 201),
      queries username currentUserId
        @ [Rpc (rpc_call_params currentUserId username (body_display_name rq)),
           Insert (fallback_row currentUserId username (body_display_name rq))])"
  by (auto simp: POST_def username_taken_def has_profile_def queries_def rpc_failed_def Let_def
      split: rpc_outcome.splits option.splits)

lemma rpc_not_failed:
  "\<not> rpc_failed r \<Longrightarrow> \<exists>new_id. r = RpcReturned (Some new_id) None \<and> new_id \<noteq> []"
  by (auto simp: rpc_failed_def truthy_def split: rpc_outcome.splits option.splits)

lemma POST_cases [case_names required unauthorized taken exists created fallback]:
  obtains
    "body_username rq = None \<or> body_username rq = Some []"
  | username where "body_username rq = Some username" "username \<noteq> []"
      "\<not> truthy (resolve_user_id be rq)"
  | username currentUserId where "body_username rq = Some username" "username \<noteq> []"
      "resolve_user_id be rq = Some currentUserId" "currentUserId \<noteq> []"
      "username_taken be username"
  | username currentUserId where "body_username rq = Some username" "username \<noteq> []"
      "resolve_user_id be rq = Some currentUserId" "currentUserId \<noteq> []"
      "\<not> username_taken be username" "has_profile be currentUserId"
  | username currentUserId new_id where "body_username rq = Some username" "username \<noteq> []"
      "resolve_user_id be rq = Some currentUserId" "currentUserId \<noteq> []"
      "\<not> username_taken be username" "\<not> has_profile be currentUserId"
      "rpc be (rpc_call_params currentUserId username (body_display_name rq))
         = RpcReturned (Some new_id) None" "new_id \<noteq> []"
  | username currentUserId where "body_username rq = Some username" "username \<noteq> []"
      "resolve_user_id be rq = Some currentUserId" "currentUserId \<noteq> []"
      "\<not> username_taken be username" "\<not> has_profile be currentUserId"
      "rpc_failed (rpc be (rpc_call_params currentUserId username (body_display_name rq)))"
proof (cases "body_username rq")
  case None
  then show ?thesis using that(1) by simp
next
  case (Some username)
  show ?thesis
  proof (cases "username = []")
    case True
    with Some show ?thesis using that(1) by simp
  next
    case nonempty: False
    show ?thesis
    proof (cases "truthy (resolve_user_id be rq)")
      case False
      with Some nonempty show ?thesis using that(2) by blast
    next
      case True
      then obtain currentUserId where cur: "resolve_user_id be rq = Some currentUserId"
        "currentUserId \<noteq> []"
        by (auto simp: truthy_def split: option.splits)
      show ?thesis
      proof (cases "username_taken be username")
        case True
        with Some nonempty cur show ?thesis using that(3) by blast
      next
        case free: False
        show ?thesis
        proof (cases "has_profile be currentUserId")
          case True
          with Some nonempty cur free show ?thesis using that(4) by blast
        next
          case new: False
          show ?thesis
          proof (cases "rpc_failed (rpc be (rpc_call_params currentUserId username
                          (body_display_name rq)))")
            case True
            with Some nonempty cur free new show ?thesis using that(6) by blast
          next
            case False
            from rpc_not_failed [OF this] obtain new_id where
              "rpc be (rpc_call_params currentUserId username (body_display_name rq))
                 = RpcReturned (Some new_id) None" "new_id \<noteq> []"
              by blast
            with Some nonempty cur free new show ?thesis using that(5) by blast
          qed
        qed
      qed
    qed
  qed
qed

text \<open>
  C1. Whenever the privileged RPC creation call of POST fails (it returns an error, returns
  no data, or throws), the fallback direct insert is attempted exactly once, with the same
  normalized fields as the RPC call (lowercased username, display name defaulted to the
  username when none is given), and an error of that insert is returned with status 500
  and the underlying message.
\<close>

theorem POST_fallback_insert:
  assumes "Rpc a \<in> set (snd (POST be rq))"
    and "rpc_failed (rpc be a)"
  shows "filter is_insert (snd (POST be rq))
           = [Insert \<lparr>ins_user_id = p_user_id a, ins_username = p_username a,
                      ins_display_name = p_display_name a\<rparr>]
       \<and> (\<exists>username. body_username rq = Some username
             \<and> p_username a = toLowerCase username
             \<and> p_display_name a = or_else (body_display_name rq) username)
       \<and> (\<forall>message.
             ins_error (insert_profile be \<lparr>ins_user_id = p_user_id a,
               ins_username = p_username a, ins_display_name = p_display_name a\<rparr>) = Some message
             \<longrightarrow> fst (POST be rq) = json (ErrorJson message) 500)"
proof (cases rule: POST_cases [where rq = rq and be = be])
  case required
  with assms(1) show ?thesis by (simp add: POST_required)
next
  case (unauthorized username)
  with assms(1) show ?thesis by (simp add: POST_unauthorized)
next
  case (taken username currentUserId)
  with assms(1) show ?thesis by (simp add: POST_taken)
next
  case (exists username currentUserId)
  with assms(1) show ?thesis by (simp add: POST_exists queries_def)
next
  case (created username currentUserId new_id)
  from assms(1) have "a = rpc_call_params currentUserId username (body_display_name rq)"
    by (simp add: POST_rpc_created [OF created] queries_def)
  with assms(2) created(7, 8) have False by (simp add: rpc_failed_def truthy_def)
  then show ?thesis ..
next
  case (fallback username currentUserId)
  note path = POST_fallback [OF fallback]
  from assms(1) have a: "a = rpc_call_params currentUserId username (body_display_name rq)"
    by (simp add: path queries_def)
  have row: "\<lparr>ins_user_id = p_user_id a, ins_username = p_username a,
               ins_display_name = p_display_name a\<rparr>
             = fallback_row currentUserId username (body_display_name rq)"
    by (simp add: a rpc_call_params_def fallback_row_def)
  have "filter is_insert (snd (POST be rq))
          = [Insert (fallback_row currentUserId username (body_display_name rq))]"
    by (simp add: path queries_def is_insert_def)
  moreover have "p_username a = toLowerCase username
      \<and> p_display_name a = or_else (body_display_name rq) username"
    by (simp add: a rpc_call_params_def)
  moreover have "\<forall>message.
      ins_error (insert_profile be (fallback_row currentUserId username (body_display_name rq)))
        = Some message \<longrightarrow> fst (POST be rq) = json (ErrorJson message) 500"
    by (simp add: path)
  ultimately show ?thesis unfolding row using fallback(1) by blast
qed



theorem POST_fallback_insert_witness:
  "Rpc \<lparr>p_user_id = ''u1'', p_username = ''alice'', p_display_name = ''Alice''\<rparr>
     \<in> set (snd (POST backend_rpc_down request_Alice))
   \<and> rpc_failed (rpc backend_rpc_down
         \<lparr>p_user_id = ''u1'', p_username = ''alice'', p_display_name = ''Alice''\<rparr>)
   \<and> filter is_insert (snd (POST backend_rpc_down request_Alice))
       = [Insert \<lparr>ins_user_id = ''u1'', ins_username = ''alice'', ins_display_name = ''Alice''\<rparr>]
   \<and> fst (POST backend_rpc_down request_Alice) = json (ErrorJson ''permission denied'') 500"
proof -
  let ?a = "\<lparr>p_user_id = ''u1'', p_username = ''alice'', p_display_name = ''Alice''\<rparr>"
  have called: "Rpc ?a \<in> set (snd (POST backend_rpc_down request_Alice))"
    by code_simp
  have failed: "rpc_failed (rpc backend_rpc_down ?a)"
    by code_simp
  have refused: "ins_error (insert_profile backend_rpc_down
      \<lparr>ins_user_id = p_user_id ?a, ins_username = p_username ?a,
       ins_display_name = p_display_name ?a\<rparr>) = Some ''permission denied''"
    by (simp add: backend_rpc_down_def)
  from POST_fallback_insert [OF called failed] refused called failed
  show ?thesis by simp
qed

text \<open>
  C2. When the privileged RPC creation call of POST succeeds, the handler should return the
  created profile record with status 201: the lowercased username and the defaulted display
  name, as stored. The code answers 201 with the request's own fields instead: for the body
  with username "Alice" and no display name, the RPC stores username "alice" and display
  name "Alice", and the response carries username "Alice" and no display name.
\<close>

theorem POST_rpc_success_echoes_request:
  "POST backend_rpc_up request_Alice =
     (json (CreatedJson ''p1'' ''Alice'' None) 201,
      [GetUser, SelectProfileByUsername ''alice'', SelectProfileByUserId ''u1'',
       Rpc \<lparr>p_user_id = ''u1'', p_username = ''alice'', p_display_name = ''Alice''\<rparr>])"
  by code_simp

text \<open>
  C3. For every username whose length is outside 3..20 or that contains a character outside
  [A-Za-z0-9_], handleSignup rejects with a validation message before any network call: no
  call at all is issued. For a length violation the message is
  "Username must be 3-20 characters".
\<close>

theorem signup_rejects_invalid_username:
  assumes "length username < 3 \<or> 20 < length username
           \<or> (\<exists>c\<in>set username. \<not> username_char c)"
  shows "snd (handleSignup be origin email password username) = []
       \<and> su_error (fst (handleSignup be origin email password username))
            \<in> {''Username must be 3-20 characters'',
                ''Username can only contain letters, numbers, and underscores''}
       \<and> \<not> su_loading (fst (handleSignup be origin email password username))
       \<and> (length username < 3 \<or> 20 < length username \<longrightarrow>
            su_error (fst (handleSignup be origin email password username))
              = ''Username must be 3-20 characters'')"
proof -
  from assms have "length username < 3 \<or> 20 < length username \<or> \<not> username_regex username"
    by (auto simp: username_regex_def list_all_iff)
  then show ?thesis
    by (auto simp: handleSignup_def)
qed

theorem signup_rejects_invalid_username_witness:
  "length ''ab'' < 3
   \<and> snd (handleSignup signup_backend_empty ''https://selfbook.test'' ''a@b.c'' ''secret1'' ''ab'')
       = []
   \<and> su_error (fst (handleSignup signup_backend_empty ''https://selfbook.test'' ''a@b.c''
         ''secret1'' ''ab''))
       = ''Username must be 3-20 characters''"
  using signup_rejects_invalid_username
    [of "''ab''" signup_backend_empty "''https://selfbook.test''" "''a@b.c''" "''secret1''"]
  by simp

text \<open>
  Both creation paths write the username in lowercase: the stored usernames that this
  handler produces are fixed points of \<open>toLowerCase\<close>.
\<close>

lemma lower_char_idem: "lower_char (lower_char c) = lower_char c"
proof -
  define n where "n = (of_char c :: nat)"
  have shifted: "(of_char (char_of (n + 32) :: char) :: nat) = n + 32" if "n \<le> 222"
    using that by (simp add: of_char_of)
  show ?thesis
  proof (cases "(65 \<le> n \<and> n \<le> 90) \<or> (192 \<le> n \<and> n \<le> 214) \<or> (216 \<le> n \<and> n \<le> 222)")
    case True
    then have "n \<le> 222" by auto
    from shifted [OF this] True show ?thesis
      by (auto simp: lower_char_def Let_def n_def [symmetric])
  next
    case False
    then show ?thesis by (auto simp: lower_char_def Let_def n_def [symmetric])
  qed
qed

lemma toLowerCase_idem: "toLowerCase (toLowerCase s) = toLowerCase s"
  by (simp add: toLowerCase_def lower_char_idem)

lemma POST_writes_lowercase:
  "(Rpc a \<in> set (snd (POST be rq)) \<longrightarrow> toLowerCase (p_username a) = p_username a)
   \<and> (Insert r \<in> set (snd (POST be rq)) \<longrightarrow> toLowerCase (ins_username r) = ins_username r)"
proof (cases rule: POST_cases [where rq = rq and be = be])
  case required
  then show ?thesis by (simp add: POST_required)
next
  case (unauthorized username)
  then show ?thesis by (simp add: POST_unauthorized)
next
  case (taken username currentUserId)
  then show ?thesis by (simp add: POST_taken)
next
  case (exists username currentUserId)
  then show ?thesis by (simp add: POST_exists queries_def)
next
  case (created username currentUserId new_id)
  show ?thesis
    by (auto simp: POST_rpc_created [OF created] queries_def rpc_call_params_def toLowerCase_idem)
next
  case (fallback username currentUserId)
  show ?thesis
    by (auto simp: POST_fallback [OF fallback] queries_def rpc_call_params_def fallback_row_def
        toLowerCase_idem)
qed




text \<open>
  C10. Server-side username validation in POST is a presence check only: the handler
  answers 400 "Username is required" if and only if the username is absent or empty. Every
  non-empty username, of any length and character set, passes it: the handler goes on to
  resolve the identity, with an identity it issues the uniqueness query for the lowercased
  username, and when neither query finds a row it calls the creation RPC with it.
\<close>

theorem POST_username_presence_check:
  "((fst (POST be rq) = json (ErrorJson ''Username is required'') 400)
      = (body_username rq = None \<or> body_username rq = Some []))
   \<and> (\<forall>username. body_username rq = Some username \<and> username \<noteq> [] \<longrightarrow>
         take 1 (snd (POST be rq)) = [GetUser]
         \<and> (truthy (resolve_user_id be rq) \<longrightarrow>
              SelectProfileByUsername (toLowerCase username) \<in> set (snd (POST be rq)))
         \<and> (\<forall>currentUserId.
               resolve_user_id be rq = Some currentUserId \<and> currentUserId \<noteq> []
               \<and> \<not> username_taken be username \<and> \<not> has_profile be currentUserId \<longrightarrow>
               Rpc (rpc_call_params currentUserId username (body_display_name rq))
                 \<in> set (snd (POST be rq))))"
proof (cases rule: POST_cases [where rq = rq and be = be])
  case required
  then show ?thesis by (auto simp: POST_required)
next
  case (unauthorized username)
  then show ?thesis by (auto simp: POST_unauthorized json_def truthy_def)
next
  case (taken username currentUserId)
  then show ?thesis by (simp add: POST_taken json_def)
next
  case (exists username currentUserId)
  then show ?thesis by (simp add: POST_exists json_def queries_def)
next
  case (created username currentUserId new_id)
  then show ?thesis by (simp add: POST_rpc_created [OF created] json_def queries_def)
next
  case (fallback username currentUserId)
  then show ?thesis
    by (simp add: POST_fallback [OF fallback] json_def queries_def split: option.splits)
qed

theorem POST_username_presence_check_witness:
  "body_username request_short = Some ''x!''
   \<and> fst (POST backend_rpc_up request_short) \<noteq> json (ErrorJson ''Username is required'') 400
   \<and> Rpc \<lparr>p_user_id = ''u1'', p_username = ''x!'', p_display_name = ''x!''\<rparr>
       \<in> set (snd (POST backend_rpc_up request_short))"
proof -
  have h1: "body_username request_short = Some ''x!''" by (simp add: request_short_def)
  have h2: "resolve_user_id backend_rpc_up request_short = Some ''u1''" by code_simp
  have h3: "\<not> username_taken backend_rpc_up ''x!''" by code_simp
  have h4: "\<not> has_profile backend_rpc_up ''u1''" by code_simp
  have h5: "rpc_call_params ''u1'' ''x!'' (body_display_name request_short)
              = \<lparr>p_user_id = ''u1'', p_username = ''x!'', p_display_name = ''x!''\<rparr>"
    by code_simp
  from POST_username_presence_check [of backend_rpc_up request_short] h1 h2 h3 h4 h5
  show ?thesis by simp
qed

section \<open>Properties of the backend client accessor\<close>

lemma getSupabaseClient_memo:
  "supabaseClient st = Some c \<Longrightarrow> getSupabaseClient env st = (Inr c, st)"
  by (simp add: getSupabaseClient_def)

lemma getSupabaseClient_invariant:
  "client_invariant st \<Longrightarrow> client_invariant (snd (getSupabaseClient env st))"
  by (auto simp: client_invariant_def getSupabaseClient_def createClient_def Let_def
      split: option.splits)

lemma getSupabaseClient_returns_stored:
  "getSupabaseClient env st = (Inr c, st') \<Longrightarrow> supabaseClient st' = Some c"
  by (auto simp: getSupabaseClient_def createClient_def Let_def split: option.splits if_splits)

lemma accesses_memo:
  "supabaseClient st = Some c \<Longrightarrow> snd (accesses envs st) = st"
  by (induction envs) (auto simp: getSupabaseClient_memo split: prod.splits)

lemma accesses_invariant:
  "client_invariant st \<Longrightarrow>
   client_invariant (snd (accesses envs st))
   \<and> (\<forall>c. Inr c \<in> set (fst (accesses envs st)) \<longrightarrow>
         supabaseClient (snd (accesses envs st)) = Some c)"
proof (induction envs arbitrary: st)
  case Nil
  then show ?case by simp
next
  case (Cons env envs)
  obtain r st1 where step: "getSupabaseClient env st = (r, st1)"
    by (cases "getSupabaseClient env st")
  obtain rs st2 where rest: "accesses envs st1 = (rs, st2)"
    by (cases "accesses envs st1")
  from Cons.prems step have inv1: "client_invariant st1"
    using getSupabaseClient_invariant [of st env] by simp
  from Cons.IH [OF inv1] rest have
    inv2: "client_invariant st2"
    and later: "\<forall>c. Inr c \<in> set rs \<longrightarrow> supabaseClient st2 = Some c"
    by simp_all
  have first: "supabaseClient st2 = Some c" if "r = Inr c" for c
  proof -
    from that step have "supabaseClient st1 = Some c"
      by (simp add: getSupabaseClient_returns_stored)
    with accesses_memo [of st1 c envs] rest show ?thesis by simp
  qed
  from inv2 later first show ?case
    by (auto simp: step rest)
qed

text \<open>
  C7. getSupabaseClient constructs the backend client at most once per process, and every
  call that returns gives the same shared handle; if either required configuration value
  is missing, the first access throws the configuration error and no client is
  constructed.
\<close>

theorem getSupabaseClient_singleton:
  "length (constructed (snd (accesses envs process_start))) \<le> 1
   \<and> (\<forall>c1 c2. Inr c1 \<in> set (fst (accesses envs process_start))
         \<and> Inr c2 \<in> set (fst (accesses envs process_start)) \<longrightarrow> c1 = c2)
   \<and> (\<not> truthy (NEXT_PUBLIC_SUPABASE_URL env) \<or> \<not> truthy (NEXT_PUBLIC_SUPABASE_ANON_KEY env)
        \<longrightarrow> getSupabaseClient env process_start
              = (Inl (ErrorInstance ''Missing Supabase environment variables''), process_start))"
proof -
  have start: "client_invariant process_start"
    by (simp add: client_invariant_def process_start_def)
  note inv = accesses_invariant [OF start, of envs]
  from inv have "length (constructed (snd (accesses envs process_start))) \<le> 1"
    by (auto simp: client_invariant_def split: option.splits)
  moreover from inv have "\<forall>c1 c2. Inr c1 \<in> set (fst (accesses envs process_start))
         \<and> Inr c2 \<in> set (fst (accesses envs process_start)) \<longrightarrow> c1 = c2"
    by (metis option.inject)
  moreover have "\<not> truthy (NEXT_PUBLIC_SUPABASE_URL env)
        \<or> \<not> truthy (NEXT_PUBLIC_SUPABASE_ANON_KEY env)
        \<longrightarrow> getSupabaseClient env process_start
              = (Inl (ErrorInstance ''Missing Supabase environment variables''), process_start)"
    by (auto simp: getSupabaseClient_def process_start_def)
  ultimately show ?thesis by blast
qed

theorem getSupabaseClient_singleton_witness:
  "fst (accesses [env_no_key, env_ok, env_ok, env_no_key] process_start)
     = [Inl (ErrorInstance ''Missing Supabase environment variables''),
        Inr \<lparr>client_handle = 0, client_url = ''https://db.example'', client_key = ''anon''\<rparr>,
        Inr \<lparr>client_handle = 0, client_url = ''https://db.example'', client_key = ''anon''\<rparr>,
        Inr \<lparr>client_handle = 0, client_url = ''https://db.example'', client_key = ''anon''\<rparr>]
   \<and> length (constructed (snd (accesses [env_no_key, env_ok, env_ok, env_no_key] process_start)))
       \<le> 1
   \<and> \<not> truthy (NEXT_PUBLIC_SUPABASE_ANON_KEY env_no_key)
   \<and> getSupabaseClient env_no_key process_start
       = (Inl (ErrorInstance ''Missing Supabase environment variables''), process_start)"
proof -
  have run: "fst (accesses [env_no_key, env_ok, env_ok, env_no_key] process_start)
     = [Inl (ErrorInstance ''Missing Supabase environment variables''),
        Inr \<lparr>client_handle = 0, client_url = ''https://db.example'', client_key = ''anon''\<rparr>,
        Inr \<lparr>client_handle = 0, client_url = ''https://db.example'', client_key = ''anon''\<rparr>,
        Inr \<lparr>client_handle = 0, client_url = ''https://db.example'', client_key = ''anon''\<rparr>]"
    by code_simp
  have missing: "\<not> truthy (NEXT_PUBLIC_SUPABASE_ANON_KEY env_no_key)"
    by (simp add: env_no_key_def truthy_def)
  note singleton = getSupabaseClient_singleton
    [of "[env_no_key, env_ok, env_ok, env_no_key]" env_no_key]
  from singleton have once:
    "length (constructed (snd (accesses [env_no_key, env_ok, env_ok, env_no_key] process_start)))
       \<le> 1"
    by blast
  from singleton missing have thrown:
    "getSupabaseClient env_no_key process_start
       = (Inl (ErrorInstance ''Missing Supabase environment variables''), process_start)"
    by blast
  from run once missing thrown show ?thesis by blast
qed

section \<open>Properties of the public profile card\<close>













section \<open>Properties of the dashboard page\<close>

lemma loadProfile_effects:
  "filter is_update_section (snd (loadProfile be st)) = []
   \<and> filter is_set_saving (snd (loadProfile be st)) = []
   \<and> filter is_profile_write (snd (loadProfile be st)) = []"
  by (simp add: loadProfile_def Let_def is_update_section_def is_set_saving_def
      is_profile_write_def split: option.split create_outcome.split)

lemma loadProfile_starts: "take 1 (snd (loadProfile be st)) = [GetUser]"
  by (simp add: loadProfile_def Let_def split: option.split create_outcome.split)

lemma loadProfile_loaded:
  assumes "db_user be = Some user"
    and "pr_data (db_profile be (uid user)) = Some profileData"
    and "db_sections be (prof_id profileData) = Some sectionsData"
  shows "(\<exists>mid. snd (loadProfile be st)
              = [GetUser, SelectProfileByUserId (uid user)] @ mid
                @ [SelectSections (prof_id profileData)]
            \<and> (pr_error (db_profile be (uid user)) = None \<longrightarrow> mid = []))
       \<and> profile (fst (loadProfile be st)) = Some profileData
       \<and> displayName (fst (loadProfile be st)) = or_else (prof_display_name profileData) []
       \<and> bio (fst (loadProfile be st)) = or_else (prof_bio profileData) []
       \<and> avatarUrl (fst (loadProfile be st)) = or_else (prof_avatar_url profileData) []
       \<and> bannerUrl (fst (loadProfile be st)) = or_else (prof_banner_url profileData) []
       \<and> sections (fst (loadProfile be st)) = sectionsData
       \<and> sectionEdits (fst (loadProfile be st)) = section_edits_of sectionsData
       \<and> loading (fst (loadProfile be st)) = False"
  using assms
  by (simp add: loadProfile_def Let_def split: option.split create_outcome.split)

text \<open>
  C5. For an id that has a draft, saveSection writes exactly the draft's title, content and
  visible flag and the timestamp to the sections store, once; it marks the id as saving
  before the write and unmarks it as its last step whether the write succeeded or not.
  When the write succeeded it reloads all profile data: it asks for the user, and with a
  user, a profile row and section rows it queries the profile and its sections, in this
  order, and replaces the profile, the display name, bio, avatar and banner URL, the
  sections and all drafts by what was loaded. When the write failed it reloads nothing,
  and every draft is as it was.
\<close>

theorem saveSection_contract:
  assumes "sectionEdits st section_id = Some edits"
  shows "snd (saveSection be now section_id st)
           = [SetSavingSectionId (Some section_id),
              UpdateSection section_id (section_write edits now)]
             @ (if db_update_section be section_id (section_write edits now) = None
                then snd (loadProfile be (st\<lparr>savingSectionId := Some section_id\<rparr>)) else [])
             @ [SetSavingSectionId None]
       \<and> filter is_update_section (snd (saveSection be now section_id st))
           = [UpdateSection section_id (section_write edits now)]
       \<and> filter is_set_saving (snd (saveSection be now section_id st))
           = [SetSavingSectionId (Some section_id), SetSavingSectionId None]
       \<and> savingSectionId (fst (saveSection be now section_id st)) = None
       \<and> (db_update_section be section_id (section_write edits now) = None \<longrightarrow>
            fst (saveSection be now section_id st)
              = (fst (loadProfile be (st\<lparr>savingSectionId := Some section_id\<rparr>)))
                  \<lparr>savingSectionId := None\<rparr>
            \<and> take 3 (snd (saveSection be now section_id st))
                = [SetSavingSectionId (Some section_id),
                   UpdateSection section_id (section_write edits now), GetUser]
            \<and> (\<forall>user profileData sectionsData.
                  db_user be = Some user
                  \<and> pr_data (db_profile be (uid user)) = Some profileData
                  \<and> db_sections be (prof_id profileData) = Some sectionsData \<longrightarrow>
                  (\<exists>mid. snd (saveSection be now section_id st)
                       = [SetSavingSectionId (Some section_id),
                          UpdateSection section_id (section_write edits now),
                          GetUser, SelectProfileByUserId (uid user)] @ mid
                         @ [SelectSections (prof_id profileData), SetSavingSectionId None]
                     \<and> (pr_error (db_profile be (uid user)) = None \<longrightarrow> mid = []))
                  \<and> profile (fst (saveSection be now section_id st)) = Some profileData
                  \<and> displayName (fst (saveSection be now section_id st))
                      = or_else (prof_display_name profileData) []
                  \<and> bio (fst (saveSection be now section_id st))
                      = or_else (prof_bio profileData) []
                  \<and> avatarUrl (fst (saveSection be now section_id st))
                      = or_else (prof_avatar_url profileData) []
                  \<and> bannerUrl (fst (saveSection be now section_id st))
                      = or_else (prof_banner_url profileData) []
                  \<and> sections (fst (saveSection be now section_id st)) = sectionsData
                  \<and> sectionEdits (fst (saveSection be now section_id st))
                      = section_edits_of sectionsData
                  \<and> loading (fst (saveSection be now section_id st)) = False))
       \<and> (db_update_section be section_id (section_write edits now) \<noteq> None \<longrightarrow>
            fst (saveSection be now section_id st) = st\<lparr>savingSectionId := None\<rparr>
            \<and> snd (saveSection be now section_id st)
                = [SetSavingSectionId (Some section_id),
                   UpdateSection section_id (section_write edits now),
                   SetSavingSectionId None]
            \<and> sectionEdits (fst (saveSection be now section_id st)) = sectionEdits st)"
proof (cases "db_update_section be section_id (section_write edits now)")
  case None
  let ?st1 = "st\<lparr>savingSectionId := Some section_id\<rparr>"
  from None assms have run: "saveSection be now section_id st
      = ((fst (loadProfile be ?st1))\<lparr>savingSectionId := None\<rparr>,
         [SetSavingSectionId (Some section_id),
          UpdateSection section_id (section_write edits now)]
         @ snd (loadProfile be ?st1) @ [SetSavingSectionId None])"
    by (simp add: saveSection_def section_write_def Let_def)
  have first: "take 3 (snd (saveSection be now section_id st))
                = [SetSavingSectionId (Some section_id),
                   UpdateSection section_id (section_write edits now), GetUser]"
    using loadProfile_starts [of be ?st1]
    by (cases "snd (loadProfile be ?st1)") (simp_all add: run)
  have reload: "(\<exists>mid. snd (saveSection be now section_id st)
                       = [SetSavingSectionId (Some section_id),
                          UpdateSection section_id (section_write edits now),
                          GetUser, SelectProfileByUserId (uid user)] @ mid
                         @ [SelectSections (prof_id profileData), SetSavingSectionId None]
                     \<and> (pr_error (db_profile be (uid user)) = None \<longrightarrow> mid = []))
                  \<and> profile (fst (saveSection be now section_id st)) = Some profileData
                  \<and> displayName (fst (saveSection be now section_id st))
                      = or_else (prof_display_name profileData) []
                  \<and> bio (fst (saveSection be now section_id st))
                      = or_else (prof_bio profileData) []
                  \<and> avatarUrl (fst (saveSection be now section_id st))
                      = or_else (prof_avatar_url profileData) []
                  \<and> bannerUrl (fst (saveSection be now section_id st))
                      = or_else (prof_banner_url profileData) []
                  \<and> sections (fst (saveSection be now section_id st)) = sectionsData
                  \<and> sectionEdits (fst (saveSection be now section_id st))
                      = section_edits_of sectionsData
                  \<and> loading (fst (saveSection be now section_id st)) = False"
    if "db_user be = Some user \<and> pr_data (db_profile be (uid user)) = Some profileData
        \<and> db_sections be (prof_id profileData) = Some sectionsData"
    for user profileData sectionsData
  proof -
    from that have h: "db_user be = Some user"
      "pr_data (db_profile be (uid user)) = Some profileData"
      "db_sections be (prof_id profileData) = Some sectionsData"
      by simp_all
    note loaded = loadProfile_loaded [OF h, of ?st1]
    from loaded [THEN conjunct1] obtain mid where
      mid: "snd (loadProfile be ?st1)
              = [GetUser, SelectProfileByUserId (uid user)] @ mid
                @ [SelectSections (prof_id profileData)]"
        "pr_error (db_profile be (uid user)) = None \<longrightarrow> mid = []"
      by (elim exE conjE)
    note fields = loaded [THEN conjunct2]
    have "snd (saveSection be now section_id st)
            = [SetSavingSectionId (Some section_id),
               UpdateSection section_id (section_write edits now),
               GetUser, SelectProfileByUserId (uid user)] @ mid
              @ [SelectSections (prof_id profileData), SetSavingSectionId None]"
      by (simp add: run mid(1))
    with mid(2) have "\<exists>mid. snd (saveSection be now section_id st)
            = [SetSavingSectionId (Some section_id),
               UpdateSection section_id (section_write edits now),
               GetUser, SelectProfileByUserId (uid user)] @ mid
              @ [SelectSections (prof_id profileData), SetSavingSectionId None]
          \<and> (pr_error (db_profile be (uid user)) = None \<longrightarrow> mid = [])"
      by (intro exI [of _ mid] conjI)
    moreover from fields have
      "profile (fst (saveSection be now section_id st)) = Some profileData
       \<and> displayName (fst (saveSection be now section_id st))
           = or_else (prof_display_name profileData) []
       \<and> bio (fst (saveSection be now section_id st)) = or_else (prof_bio profileData) []
       \<and> avatarUrl (fst (saveSection be now section_id st))
           = or_else (prof_avatar_url profileData) []
       \<and> bannerUrl (fst (saveSection be now section_id st))
           = or_else (prof_banner_url profileData) []
       \<and> sections (fst (saveSection be now section_id st)) = sectionsData
       \<and> sectionEdits (fst (saveSection be now section_id st))
           = section_edits_of sectionsData
       \<and> loading (fst (saveSection be now section_id st)) = False"
      by (simp add: run)
    ultimately show ?thesis by (rule conjI)
  qed
  have effects: "snd (saveSection be now section_id st)
           = [SetSavingSectionId (Some section_id),
              UpdateSection section_id (section_write edits now)]
             @ (if db_update_section be section_id (section_write edits now) = None
                then snd (loadProfile be (st\<lparr>savingSectionId := Some section_id\<rparr>)) else [])
             @ [SetSavingSectionId None]"
    by (simp add: run None)
  have once: "filter is_update_section (snd (saveSection be now section_id st))
           = [UpdateSection section_id (section_write edits now)]"
    by (simp add: run loadProfile_effects is_update_section_def)
  have marks: "filter is_set_saving (snd (saveSection be now section_id st))
           = [SetSavingSectionId (Some section_id), SetSavingSectionId None]"
    by (simp add: run loadProfile_effects is_set_saving_def)
  have unmarked: "savingSectionId (fst (saveSection be now section_id st)) = None"
    by (simp add: run)
  have state: "fst (saveSection be now section_id st)
              = (fst (loadProfile be (st\<lparr>savingSectionId := Some section_id\<rparr>)))
                  \<lparr>savingSectionId := None\<rparr>"
    by (simp add: run)
  from None effects once marks unmarked state first reload show ?thesis
    by blast
next
  case (Some error)
  with assms have run: "saveSection be now section_id st
      = (st\<lparr>savingSectionId := None\<rparr>,
         [SetSavingSectionId (Some section_id),
          UpdateSection section_id (section_write edits now),
          SetSavingSectionId None])"
    by (simp add: saveSection_def section_write_def Let_def)
  from Some show ?thesis
    by (simp add: run is_update_section_def is_set_saving_def)
qed

theorem saveSection_contract_witness:
  "sectionEdits dashboard_edited ''s1''
     = Some \<lparr>title = ''Ideas'',
             content = \<lparr>items = Some [''First item''], links = None, images = None\<rparr>,
             visible = False\<rparr>
   \<and> snd (saveSection backend_saving ''2026-01-01T00:00:00.000Z'' ''s1'' dashboard_edited)
       = [SetSavingSectionId (Some ''s1''),
          UpdateSection ''s1''
            \<lparr>upd_title = ''Ideas'',
             upd_content = \<lparr>items = Some [''First item''], links = None, images = None\<rparr>,
             upd_visible = False, upd_updated_at = ''2026-01-01T00:00:00.000Z''\<rparr>,
          GetUser, SelectProfileByUserId ''u0'', SelectSections ''p0'',
          SetSavingSectionId None]
   \<and> sections (fst (saveSection backend_saving ''2026-01-01T00:00:00.000Z'' ''s1''
         dashboard_edited)) = [saved_section]
   \<and> sectionEdits (fst (saveSection backend_saving ''2026-01-01T00:00:00.000Z'' ''s1''
         dashboard_edited)) = section_edits_of [saved_section]
   \<and> sectionEdits dashboard_loaded ''s1''
     = Some \<lparr>title = ''Notes'',
             content = \<lparr>items = Some [''First item''], links = None, images = None\<rparr>,
             visible = False\<rparr>
   \<and> snd (saveSection backend_failing ''2026-01-01T00:00:00.000Z'' ''s1'' dashboard_loaded)
       = [SetSavingSectionId (Some ''s1''),
          UpdateSection ''s1''
            \<lparr>upd_title = ''Notes'',
             upd_content = \<lparr>items = Some [''First item''], links = None, images = None\<rparr>,
             upd_visible = False, upd_updated_at = ''2026-01-01T00:00:00.000Z''\<rparr>,
          SetSavingSectionId None]
   \<and> sectionEdits (fst (saveSection backend_failing ''2026-01-01T00:00:00.000Z'' ''s1''
         dashboard_loaded))
       = sectionEdits dashboard_loaded"
proof -
  let ?ts = "''2026-01-01T00:00:00.000Z''"
  let ?c = "\<lparr>items = Some [''First item''], links = None, images = None\<rparr>"
  let ?new = "\<lparr>title = ''Ideas'', content = ?c, visible = False\<rparr>"
  let ?old = "\<lparr>title = ''Notes'', content = ?c, visible = False\<rparr>"
  let ?user = "\<lparr>uid = ''u0'', user_email = None\<rparr>"
  have edited: "sectionEdits dashboard_edited ''s1'' = Some ?new"
    by (simp add: dashboard_edited_def)
  have accepted: "db_update_section backend_saving ''s1'' (section_write ?new ?ts) = None"
    by (simp add: backend_saving_def)
  have user: "db_user backend_saving = Some ?user"
    by (simp add: backend_saving_def)
  have row: "pr_data (db_profile backend_saving (uid ?user)) = Some (profile_named ''bob_1'')"
    by (simp add: backend_saving_def)
  have no_error: "pr_error (db_profile backend_saving (uid ?user)) = None"
    by (simp add: backend_saving_def)
  have rows: "db_sections backend_saving (prof_id (profile_named ''bob_1''))
                = Some [saved_section]"
    by (simp add: backend_saving_def)
  note saved = saveSection_contract [OF edited, of backend_saving ?ts]
  note on_success = saved [THEN conjunct2, THEN conjunct2, THEN conjunct2, THEN conjunct2,
      THEN conjunct1, THEN mp, OF accepted]
  note reloaded = on_success [THEN conjunct2, THEN conjunct2, THEN spec, THEN spec, THEN spec,
      THEN mp, OF conjI [OF user conjI [OF row rows]]]
  from reloaded [THEN conjunct1] no_error
  have calls: "snd (saveSection backend_saving ?ts ''s1'' dashboard_edited)
       = [SetSavingSectionId (Some ''s1''), UpdateSection ''s1'' (section_write ?new ?ts),
          GetUser, SelectProfileByUserId ''u0'', SelectSections ''p0'',
          SetSavingSectionId None]"
    by (auto simp: profile_named_def)
  from reloaded have fresh:
    "sections (fst (saveSection backend_saving ?ts ''s1'' dashboard_edited)) = [saved_section]"
    "sectionEdits (fst (saveSection backend_saving ?ts ''s1'' dashboard_edited))
       = section_edits_of [saved_section]"
    by simp_all
  have loaded: "sectionEdits dashboard_loaded ''s1'' = Some ?old"
    by (simp add: dashboard_loaded_def section_edits_of_def hidden_section_def
        normalizedContent_def)
  have refused: "db_update_section backend_failing ''s1'' (section_write ?old ?ts) \<noteq> None"
    by (simp add: backend_failing_def)
  note failed = saveSection_contract [OF loaded, of backend_failing ?ts]
  note on_failure = failed [THEN conjunct2, THEN conjunct2, THEN conjunct2, THEN conjunct2,
      THEN conjunct2, THEN mp, OF refused]
  from on_failure have kept:
    "snd (saveSection backend_failing ?ts ''s1'' dashboard_loaded)
       = [SetSavingSectionId (Some ''s1''), UpdateSection ''s1'' (section_write ?old ?ts),
          SetSavingSectionId None]"
    "sectionEdits (fst (saveSection backend_failing ?ts ''s1'' dashboard_loaded))
       = sectionEdits dashboard_loaded"
    by simp_all
  from edited calls fresh loaded kept show ?thesis
    by (simp add: section_write_def)
qed

text \<open>
  C8. When the upload of an avatar fails at the storage layer, uploadAvatar shows the error
  to the user in an alert and changes nothing else: the avatar URL of the page, the loaded
  profile and every other part of the state are as before, the upload flag is cleared, and
  no write to the profile row is issued, so that the persisted avatar_url keeps its value.
\<close>

theorem uploadAvatar_failure_keeps_avatar:
  assumes "profile st = Some p"
    and "upload_failure (db_upload be (avatar_path p file) file) = Some error"
  shows "snd (uploadAvatar be now file st)
           = [SetUploadingAvatar True, StorageUpload (avatar_path p file) file,
              Alert (''Failed to upload avatar: '' @ errorMsg error), SetUploadingAvatar False]
       \<and> fst (uploadAvatar be now file st) = st\<lparr>uploadingAvatar := False\<rparr>
       \<and> avatarUrl (fst (uploadAvatar be now file st)) = avatarUrl st
       \<and> profile (fst (uploadAvatar be now file st)) = profile st
       \<and> filter is_profile_write (snd (uploadAvatar be now file st)) = []"
proof -
  from assms have run: "uploadAvatar be now file st
      = (st\<lparr>uploadingAvatar := False\<rparr>,
         [SetUploadingAvatar True, StorageUpload (avatar_path p file) file,
          Alert (''Failed to upload avatar: '' @ errorMsg error), SetUploadingAvatar False])"
    by (simp add: uploadAvatar_def Let_def)
  show ?thesis
    by (simp add: run is_profile_write_def)
qed

theorem uploadAvatar_failure_keeps_avatar_witness:
  "profile dashboard_loaded = Some (profile_named ''bob_1'')
   \<and> avatar_path (profile_named ''bob_1'') avatar_file = ''avatars/p0-avatar.png''
   \<and> snd (uploadAvatar backend_failing ''2026-01-01T00:00:00.000Z'' avatar_file dashboard_loaded)
       = [SetUploadingAvatar True, StorageUpload ''avatars/p0-avatar.png'' avatar_file,
          Alert ''Failed to upload avatar: Bucket not found'', SetUploadingAvatar False]
   \<and> avatarUrl (fst (uploadAvatar backend_failing ''2026-01-01T00:00:00.000Z'' avatar_file
         dashboard_loaded))
       = ''https://cdn.example/old.png''"
proof -
  have loaded: "profile dashboard_loaded = Some (profile_named ''bob_1'')"
    by (simp add: dashboard_loaded_def)
  have path: "avatar_path (profile_named ''bob_1'') avatar_file = ''avatars/p0-avatar.png''"
    by (simp add: avatar_path_def profile_named_def avatar_file_def)
  have failed: "upload_failure (db_upload backend_failing
        (avatar_path (profile_named ''bob_1'') avatar_file) avatar_file)
      = Some (ErrorInstance ''Bucket not found'')"
    by (simp add: backend_failing_def upload_failure_def)
  have old: "avatarUrl dashboard_loaded = ''https://cdn.example/old.png''"
    by (simp add: dashboard_loaded_def)
  from uploadAvatar_failure_keeps_avatar
    [OF loaded failed, of "''2026-01-01T00:00:00.000Z''"] loaded path old
  show ?thesis by (simp add: errorMsg_def)
qed

end
